theory Spec2Isabelle
  imports Complex_Main "HOL-Library.Word"
begin

section \<open>Values at the JNI boundary\<close>

text \<open>
  The bridging files pass C values between Java and the core: \<open>jint\<close> and
  \<open>unsigned int\<close> are 32-bit words (the cast between them keeps the bits),
  \<open>size_t\<close> is a 64-bit word (arm64), \<open>jboolean\<close> is a byte. A \<open>float\<close> is not
  a number, an infinity, or a finite value, written as the real it denotes; rounding is not
  modelled. A \<open>jobject\<close> is \<open>nullptr\<close> (\<open>None\<close>) or a reference to a numbered Java
  object.
\<close>

type_synonym jint = "32 word"
type_synonym size_t = "64 word"
type_synonym jboolean = "8 word"
type_synonym jobject = "nat option"

datatype cfloat = NaN | NegInf | Fin real | PosInf

definition JNI_OK :: int where
  "JNI_OK = 0"

definition JNI_EDETACHED :: int where
  "JNI_EDETACHED = - 2"

definition NUL :: char where
  "NUL = CHR 0x00"

section \<open>The Java side, as the callback sees it\<close>

text \<open>
  A call of a Java method through JNI returns a value or leaves an exception pending.
  Each record lists, for one Java object, what the JNI functions the callback uses answer:
  whether \<open>GetObjectClass\<close> and each \<open>GetMethodID\<close> give a non-null result, and what
  each method call does.
\<close>

datatype 'a jcall = Returns 'a | Throws

record battery_manager =
  bm_class :: bool
  getIntProperty_mid :: bool
  getIntProperty :: "jint jcall"
  isCharging_mid :: bool
  isCharging :: "jboolean jcall"

record java_context =
  context_class :: bool
  getSystemService_mid :: bool
  getSystemService :: "battery_manager option jcall"

record java_node =
  ggb_node_class :: bool
  getDeviceMemoryMB_mid :: bool
  getCpuCores_mid :: bool
  detectNetworkType_mid :: bool
  getDeviceMemoryMB :: "jint jcall"
  getCpuCores :: "jint jcall"
  detectNetworkType :: "string option jcall"
  GetStringUTFChars_ok :: bool

record jvm =
  GetEnv :: int
  AttachCurrentThread :: int
  node_object :: "nat \<Rightarrow> java_node"
  context_object :: "nat \<Rightarrow> java_context"

section \<open>android/src/main/cpp/williw\_jni.cpp\<close>

subsection \<open>The global references\<close>

record globals =
  g_ggb_node :: jobject
  g_context :: jobject
  g_jvm :: bool

subsection \<open>Output slots\<close>

text \<open>
  The caller passes five pointers and the capacity of the text buffer. \<open>slots\<close> says
  which pointers are non-null; \<open>outputs\<close> is what the callback stored: \<open>None\<close> for
  a slot it never assigned, and for the buffer the list of byte stores, in order, each
  with its index (a store past the capacity is a store all the same).
\<close>

record slots =
  memory_mb_p :: bool
  cpu_cores_p :: bool
  network_type_p :: bool
  network_type_len :: size_t
  battery_level_p :: bool
  is_charging_p :: bool

record outputs =
  out_memory_mb :: "32 word option"
  out_cpu_cores :: "32 word option"
  out_network_type :: "(nat \<times> char) list"
  out_battery_level :: "cfloat option"
  out_is_charging :: "jint option"

definition no_outputs :: outputs where
  "no_outputs = \<lparr>out_memory_mb = None, out_cpu_cores = None, out_network_type = [],
     out_battery_level = None, out_is_charging = None\<rparr>"

text \<open>A caller that passes all five pointers and a buffer of the given capacity.\<close>

definition all_slots :: "size_t \<Rightarrow> slots" where
  "all_slots capacity = \<lparr>memory_mb_p = True, cpu_cores_p = True, network_type_p = True,
     network_type_len = capacity, battery_level_p = True, is_charging_p = True\<rparr>"

text \<open>
  \<open>strncpy(dst, src, n)\<close> stores exactly \<open>n\<close> bytes: the bytes of \<open>src\<close>, then
  zeros. \<open>src\<close> is the text before its terminator, so \<open>strlen\<close> is its length.
\<close>

definition strncpy :: "string \<Rightarrow> nat \<Rightarrow> (nat \<times> char) list" where
  "strncpy src n = map (\<lambda>i. (i, if i < length src then src ! i else NUL)) [0..<n]"

definition strlen :: "string \<Rightarrow> size_t" where
  "strlen s = of_nat (length s)"

text \<open>The buffer after a list of stores.\<close>

definition buffer_after :: "(nat \<times> char) list \<Rightarrow> (nat \<Rightarrow> char) \<Rightarrow> nat \<Rightarrow> char" where
  "buffer_after ws buf = fold (\<lambda>(i, c) b. b(i := c)) ws buf"

subsection \<open>android\_get\_device\_info\<close>

definition copy_unknown :: "size_t \<Rightarrow> (nat \<times> char) list" where
  "copy_unknown len = strncpy ''unknown'' (unat (len - 1)) @ [(unat (len - 1), NUL)]"

definition memory_section :: "java_node \<Rightarrow> slots \<Rightarrow> 32 word option" where
  "memory_section n s =
     (if memory_mb_p s then
        (case getDeviceMemoryMB n of
           Throws \<Rightarrow> Some 2048
         | Returns memory \<Rightarrow> Some memory)
      else None)"

definition cpu_section :: "java_node \<Rightarrow> slots \<Rightarrow> 32 word option" where
  "cpu_section n s =
     (if cpu_cores_p s then
        (case getCpuCores n of
           Throws \<Rightarrow> Some 4
         | Returns cores \<Rightarrow> Some cores)
      else None)"

definition network_section :: "java_node \<Rightarrow> slots \<Rightarrow> (nat \<times> char) list" where
  "network_section n s =
     (if network_type_p s \<and> network_type_len s > 0 then
        (case detectNetworkType n of
           Throws \<Rightarrow> copy_unknown (network_type_len s)
         | Returns (Some net_cstr) \<Rightarrow>
             if GetStringUTFChars_ok n then
               (let copy_len = (if strlen net_cstr \<ge> network_type_len s
                                then network_type_len s - 1 else strlen net_cstr)
                in strncpy net_cstr (unat copy_len) @ [(unat copy_len, NUL)])
             else copy_unknown (network_type_len s)
         | Returns None \<Rightarrow> copy_unknown (network_type_len s))
      else [])"

text \<open>
  The battery section never clears an exception, so \<open>ExceptionCheck\<close> after the
  \<open>isCharging\<close> call also sees one left by the level query (a failed \<open>GetMethodID\<close>
  or a throwing \<open>getIntProperty\<close>).
\<close>

definition level_section :: "battery_manager \<Rightarrow> cfloat" where
  "level_section bm =
     (if getIntProperty_mid bm then
        (case getIntProperty bm of
           Returns level \<Rightarrow>
             if 0 \<le> sint level \<and> sint level \<le> 100
             then Fin (real_of_int (sint level) / 100) else Fin (- 1)
         | Throws \<Rightarrow> Fin (- 1))
      else Fin (- 1))"

definition level_pending :: "battery_manager \<Rightarrow> bool" where
  "level_pending bm = (\<not> getIntProperty_mid bm \<or> getIntProperty bm = Throws)"

definition charging_section :: "battery_manager \<Rightarrow> bool \<Rightarrow> jint" where
  "charging_section bm pending =
     (if isCharging_mid bm then
        (case isCharging bm of
           Returns charging \<Rightarrow> if \<not> pending then (if charging \<noteq> 0 then 1 else 0) else 0
         | Throws \<Rightarrow> 0)
      else 0)"

definition battery_section :: "globals \<Rightarrow> jvm \<Rightarrow> slots \<Rightarrow> cfloat option \<times> jint option" where
  "battery_section G J s =
     (if battery_level_p s \<or> is_charging_p s then
        (case g_context G of
           Some c \<Rightarrow>
             if context_class (context_object J c) then
               if getSystemService_mid (context_object J c) then
                 (case getSystemService (context_object J c) of
                    Returns (Some bm) \<Rightarrow>
                      if bm_class bm then
                        (if battery_level_p s then Some (level_section bm) else None,
                         if is_charging_p s
                         then Some (charging_section bm (battery_level_p s \<and> level_pending bm))
                         else None)
                      else (None, None)
                  | Returns None \<Rightarrow> (None, None)
                  | Throws \<Rightarrow> (None, None))
               else (None, None)
             else (None, None)
         | None \<Rightarrow>
             (if battery_level_p s then Some (Fin (- 1)) else None,
              if is_charging_p s then Some 0 else None))
      else (None, None))"

definition android_get_device_info :: "globals \<Rightarrow> jvm \<Rightarrow> slots \<Rightarrow> int \<times> outputs" where
  "android_get_device_info G J s =
     (case g_ggb_node G of
        None \<Rightarrow> (1, no_outputs)
      | Some r \<Rightarrow>
          if \<not> g_jvm G then (1, no_outputs)
          else if GetEnv J = JNI_EDETACHED \<and> AttachCurrentThread J \<noteq> JNI_OK
            then (1, no_outputs)
          else if GetEnv J \<noteq> JNI_EDETACHED \<and> GetEnv J \<noteq> JNI_OK then (1, no_outputs)
          else if \<not> ggb_node_class (node_object J r) then (1, no_outputs)
          else if \<not> getDeviceMemoryMB_mid (node_object J r) then (1, no_outputs)
          else if \<not> getCpuCores_mid (node_object J r) then (1, no_outputs)
          else if \<not> detectNetworkType_mid (node_object J r) then (1, no_outputs)
          else
            (0, \<lparr>out_memory_mb = memory_section (node_object J r) s,
                 out_cpu_cores = cpu_section (node_object J r) s,
                 out_network_type = network_section (node_object J r) s,
                 out_battery_level = fst (battery_section G J s),
                 out_is_charging = snd (battery_section G J s)\<rparr>))"

section \<open>android/src/main/cpp/ggb\_jni.cpp\<close>

text \<open>
  The older bridging file keeps only the context and the VM. Its callback assigns through
  every pointer without testing it, so a null pointer is a fault; it never attaches the
  thread; and it copies the text with no test of the capacity.
\<close>

record ggb_globals =
  ggb_g_context :: jobject
  ggb_g_jvm :: bool

datatype fault = NullDereference

definition ggb_android_get_device_info ::
  "ggb_globals \<Rightarrow> jvm \<Rightarrow> slots \<Rightarrow> fault + int \<times> outputs" where
  "ggb_android_get_device_info G J s =
     (case ggb_g_context G of
        None \<Rightarrow> Inr (1, no_outputs)
      | Some c \<Rightarrow>
          if \<not> ggb_g_jvm G then Inr (1, no_outputs)
          else if GetEnv J \<noteq> JNI_OK then Inr (1, no_outputs)
          else if \<not> context_class (context_object J c) then Inr (1, no_outputs)
          else if \<not> (memory_mb_p s \<and> cpu_cores_p s \<and> network_type_p s
                       \<and> battery_level_p s \<and> is_charging_p s)
            then Inl NullDereference
          else
            Inr (0, \<lparr>out_memory_mb = Some 2048,
                     out_cpu_cores = Some 4,
                     out_network_type = copy_unknown (network_type_len s),
                     out_battery_level = Some (Fin (- 1)),
                     out_is_charging = Some 0\<rparr>))"

section \<open>The wrappers of williw\_jni.cpp\<close>

text \<open>
  The wrappers call the core through its C interface, which the bridging file only
  declares. Each wrapper takes the core function it calls as an argument, with the node
  table already applied. \<open>NewStringUTF\<close> gives a Java string of the same text and
  \<open>NewGlobalRef\<close> a reference to the same object (\<open>nullptr\<close> for \<open>nullptr\<close>).
\<close>

definition NewStringUTF :: "string \<Rightarrow> string option" where
  "NewStringUTF bytes = Some bytes"

definition NewGlobalRef :: "jobject \<Rightarrow> jobject" where
  "NewGlobalRef obj = obj"

definition nativeGetCapabilities :: "(64 word \<Rightarrow> string option) \<Rightarrow> 64 word \<Rightarrow> string option" where
  "nativeGetCapabilities williw_node_get_capabilities handle =
     (case williw_node_get_capabilities handle of
        None \<Rightarrow> NewStringUTF ''{}''
      | Some json \<Rightarrow> NewStringUTF json)"

definition nativeUpdateBattery ::
  "(64 word \<Rightarrow> cfloat \<Rightarrow> jint \<Rightarrow> 'r) \<Rightarrow> 64 word \<Rightarrow> cfloat \<Rightarrow> jboolean \<Rightarrow> 'r" where
  "nativeUpdateBattery williw_node_update_battery handle level is_charging =
     williw_node_update_battery handle level (if is_charging \<noteq> 0 then 1 else 0)"

text \<open>
  \<open>nativeSetDeviceCallback\<close> replaces the three globals and then registers the one
  callback function with the core for the handle; the result is the new globals and the
  arguments of that core call.
\<close>

type_synonym device_callback = "globals \<Rightarrow> jvm \<Rightarrow> slots \<Rightarrow> int \<times> outputs"

definition nativeSetDeviceCallback ::
  "jobject \<Rightarrow> 64 word \<Rightarrow> jobject \<Rightarrow> globals \<Rightarrow> globals \<times> (64 word \<times> device_callback)" where
  "nativeSetDeviceCallback thiz handle context G =
     (G\<lparr>g_ggb_node := NewGlobalRef thiz, g_context := NewGlobalRef context, g_jvm := True\<rparr>,
      (handle, android_get_device_info))"

section \<open>src-tauri/gen/android/app/src/main/cpp/williw\_jni.cpp\<close>

text \<open>
  This file loads the core at run time. \<open>dl\<close> is what the loader answers;
  \<open>rust_lib\<close> holds the library handle and the function pointers (\<open>True\<close> for
  non-null).
\<close>

record dl =
  dlopen_ok :: bool
  dlsym_ok :: "string \<Rightarrow> bool"

record rust_lib =
  rust_lib_handle :: bool
  rust_create_node :: bool
  rust_destroy_node :: bool
  rust_get_capabilities :: bool
  rust_update_network_type :: bool
  rust_update_battery :: bool
  rust_refresh_device_info :: bool
  rust_recommended_model_dim :: bool
  rust_recommended_tick_interval :: bool
  rust_should_pause_training :: bool

definition resolve :: "dl \<Rightarrow> rust_lib \<Rightarrow> rust_lib" where
  "resolve D L = L\<lparr>
     rust_create_node := dlsym_ok D ''williw_node_create'',
     rust_destroy_node := dlsym_ok D ''williw_node_destroy'',
     rust_get_capabilities := dlsym_ok D ''williw_node_get_capabilities'',
     rust_update_network_type := dlsym_ok D ''williw_node_update_network_type'',
     rust_update_battery := dlsym_ok D ''williw_node_update_battery'',
     rust_refresh_device_info := dlsym_ok D ''williw_node_refresh_device_info'',
     rust_recommended_model_dim := dlsym_ok D ''williw_node_recommended_model_dim'',
     rust_recommended_tick_interval := dlsym_ok D ''williw_node_recommended_tick_interval'',
     rust_should_pause_training := dlsym_ok D ''williw_node_should_pause_training''\<rparr>"

definition all_resolved :: "rust_lib \<Rightarrow> bool" where
  "all_resolved L =
     (rust_create_node L \<and> rust_destroy_node L \<and> rust_get_capabilities L
      \<and> rust_update_network_type L \<and> rust_update_battery L \<and> rust_refresh_device_info L
      \<and> rust_recommended_model_dim L \<and> rust_recommended_tick_interval L
      \<and> rust_should_pause_training L)"

definition loadRustLibrary :: "dl \<Rightarrow> rust_lib \<Rightarrow> bool \<times> rust_lib" where
  "loadRustLibrary D L =
     (if rust_lib_handle L then (True, L)
      else if \<not> dlopen_ok D then (False, L)
      else if \<not> all_resolved (resolve D L)
        then (False, (resolve D L)\<lparr>rust_lib_handle := False\<rparr>)
      else (True, (resolve D L)\<lparr>rust_lib_handle := True\<rparr>))"

definition null_pointer_descriptor :: string where
  \<open>null_pointer_descriptor = ''{"error":"Node pointer is null"}''\<close>

definition not_loaded_descriptor :: string where
  \<open>not_loaded_descriptor = ''{"error":"Rust library not loaded"}''\<close>

definition error_key :: string where
  \<open>error_key = ''{"error":''\<close>

definition getCapabilities ::
  "dl \<Rightarrow> (64 word \<Rightarrow> string option) \<Rightarrow> 64 word \<Rightarrow> rust_lib \<Rightarrow> string option \<times> rust_lib" where
  "getCapabilities D rust ptr L =
     (if ptr = 0 then (NewStringUTF null_pointer_descriptor, L)
      else if \<not> fst (loadRustLibrary D L)
        then (NewStringUTF not_loaded_descriptor, snd (loadRustLibrary D L))
      else if \<not> rust_get_capabilities (snd (loadRustLibrary D L))
        then (NewStringUTF not_loaded_descriptor, snd (loadRustLibrary D L))
      else (rust ptr, snd (loadRustLibrary D L)))"

section \<open>The core behind the C interface\<close>

text \<open>
  Modelled from the spec: the node, its snapshot and the operations
  \<open>williw_node_update_battery\<close> and \<open>williw_node_should_pause_training\<close>. The
  bridging files declare these functions and call them; their bodies are in the core
  library, which is not among the source files. The definitions below follow sections 3,
  4.2 and 4.3 of the specification. Constants the specification leaves open (the
  low-battery threshold, the minimum memory and core count, the bound a not-a-number level
  is clamped to) are arguments.
\<close>

datatype network = Unknown | Wifi | Cellular | Ethernet | Offline

record device_snapshot =
  memory_mb :: "32 word"
  cpu_cores :: "32 word"
  network_type :: network
  battery_level :: cfloat
  is_charging :: bool
  last_refreshed_at :: nat

datatype status = Ok | InvalidArgument | SourceUnavailable | InvalidHandle

text \<open>
  Modelled from the spec: a node owns one snapshot and an optional telemetry source. The
  source is a callback of the signature the header gives; \<open>'w\<close> is the state outside
  the core that the callback reads when it is invoked.
\<close>

record 'w node =
  snapshot :: device_snapshot
  telemetry_source :: "('w \<Rightarrow> slots \<Rightarrow> int \<times> outputs) option"

text \<open>
  Modelled from the spec: the constants of the pause rule, which section 4.3 names without
  giving their values: the low-battery threshold and the minimum memory and core count.
\<close>

record policy =
  battery_low :: real
  min_memory_mb :: "32 word"
  min_cpu_cores :: "32 word"

text \<open>
  Modelled from the spec: a comparison of a float with a finite threshold, false for
  not-a-number as every float comparison is.
\<close>

definition below :: "cfloat \<Rightarrow> real \<Rightarrow> bool" where
  "below level threshold =
     (case level of
        NaN \<Rightarrow> False
      | NegInf \<Rightarrow> True
      | Fin x \<Rightarrow> x < threshold
      | PosInf \<Rightarrow> False)"

text \<open>
  Modelled from the spec: \<open>should_pause_training\<close> (section 4.3). Offline pauses; too
  little memory or too few cores pauses; an unknown battery level (the sentinel \<open>-1.0\<close>)
  does not pause; a known level pauses when it is below the threshold and the device is not
  charging.
\<close>

definition should_pause_training :: "policy \<Rightarrow> device_snapshot \<Rightarrow> bool" where
  "should_pause_training P s =
     (if network_type s = Offline then True
      else if memory_mb s < min_memory_mb P then True
      else if cpu_cores s < min_cpu_cores P then True
      else if battery_level s = Fin (- 1) then False
      else if is_charging s then False
      else below (battery_level s) (battery_low P))"

text \<open>
  Modelled from the spec: the level \<open>update_battery\<close> stores (section 4.2). The
  sentinel \<open>-1.0\<close> passes; every other level is clamped into \<open>[0, 1]\<close>. The
  specification does not say which bound a not-a-number level goes to: \<open>nan_high\<close>
  chooses.
\<close>

definition clamp_level :: "bool \<Rightarrow> cfloat \<Rightarrow> cfloat" where
  "clamp_level nan_high level =
     (case level of
        NaN \<Rightarrow> if nan_high then Fin 1 else Fin 0
      | NegInf \<Rightarrow> Fin 0
      | Fin x \<Rightarrow> if x = - 1 then Fin (- 1) else if x < 0 then Fin 0
                 else if 1 < x then Fin 1 else Fin x
      | PosInf \<Rightarrow> Fin 1)"

text \<open>
  Modelled from the spec: \<open>update_battery(handle, level, charging)\<close> on the table of
  live nodes. A handle that names no node is \<open>InvalidHandle\<close>; otherwise the clamped
  level and the charging flag replace the snapshot's.
\<close>

definition williw_node_update_battery ::
  "bool \<Rightarrow> (64 word \<rightharpoonup> 'w node) \<Rightarrow> 64 word \<Rightarrow> cfloat \<Rightarrow> jint
     \<Rightarrow> status \<times> (64 word \<rightharpoonup> 'w node)" where
  "williw_node_update_battery nan_high nodes handle level charging =
     (case nodes handle of
        None \<Rightarrow> (InvalidHandle, nodes)
      | Some n \<Rightarrow>
          (Ok, nodes(handle \<mapsto> n\<lparr>snapshot := (snapshot n)\<lparr>
             battery_level := clamp_level nan_high level,
             is_charging := (charging \<noteq> 0)\<rparr>\<rparr>)))"

definition stored_battery :: "(64 word \<rightharpoonup> 'w node) \<Rightarrow> 64 word \<Rightarrow> (cfloat \<times> bool) option" where
  "stored_battery nodes handle =
     (case nodes handle of
        None \<Rightarrow> None
      | Some n \<Rightarrow> Some (battery_level (snapshot n), is_charging (snapshot n)))"

section \<open>Concrete devices\<close>

text \<open>
  Inputs on which the definitions are evaluated: a node object on wifi with 4096 MB and
  8 cores, another with 1024 MB and 2 cores, a context whose battery manager reports 80
  percent and charging, and a context where \<open>getSystemService\<close> answers \<open>null\<close>.
\<close>

definition wifi_node :: java_node where
  "wifi_node = \<lparr>ggb_node_class = True, getDeviceMemoryMB_mid = True, getCpuCores_mid = True,
     detectNetworkType_mid = True, getDeviceMemoryMB = Returns 4096, getCpuCores = Returns 8,
     detectNetworkType = Returns (Some ''wifi''), GetStringUTFChars_ok = True\<rparr>"

definition small_node :: java_node where
  "small_node = \<lparr>ggb_node_class = True, getDeviceMemoryMB_mid = True, getCpuCores_mid = True,
     detectNetworkType_mid = True, getDeviceMemoryMB = Returns 1024, getCpuCores = Returns 2,
     detectNetworkType = Returns (Some ''cellular''), GetStringUTFChars_ok = True\<rparr>"

definition charged_manager :: battery_manager where
  "charged_manager = \<lparr>bm_class = True, getIntProperty_mid = True,
     getIntProperty = Returns 80, isCharging_mid = True, isCharging = Returns 1\<rparr>"

definition battery_context :: java_context where
  "battery_context = \<lparr>context_class = True, getSystemService_mid = True,
     getSystemService = Returns (Some charged_manager)\<rparr>"

definition no_battery_context :: java_context where
  "no_battery_context = \<lparr>context_class = True, getSystemService_mid = True,
     getSystemService = Returns None\<rparr>"

definition healthy_jvm :: jvm where
  "healthy_jvm = \<lparr>GetEnv = JNI_OK, AttachCurrentThread = JNI_OK,
     node_object = (\<lambda>r. if r = 10 then small_node else wifi_node),
     context_object = (\<lambda>_. battery_context)\<rparr>"

definition no_battery_jvm :: jvm where
  "no_battery_jvm = \<lparr>GetEnv = JNI_OK, AttachCurrentThread = JNI_OK,
     node_object = (\<lambda>_. wifi_node), context_object = (\<lambda>_. no_battery_context)\<rparr>"

definition unregistered :: globals where
  "unregistered = \<lparr>g_ggb_node = None, g_context = None, g_jvm = True\<rparr>"

definition registered :: globals where
  "registered = \<lparr>g_ggb_node = Some 1, g_context = Some 2, g_jvm = True\<rparr>"

definition ggb_registered :: ggb_globals where
  "ggb_registered = \<lparr>ggb_g_context = Some 2, ggb_g_jvm = True\<rparr>"

definition example_policy :: policy where
  "example_policy = \<lparr>battery_low = 2 / 10, min_memory_mb = 512, min_cpu_cores = 2\<rparr>"

definition default_snapshot :: device_snapshot where
  "default_snapshot = \<lparr>memory_mb = 2048, cpu_cores = 4, network_type = Unknown,
     battery_level = Fin (- 1), is_charging = False, last_refreshed_at = 0\<rparr>"

definition unbound_node :: "(globals \<times> jvm) node" where
  "unbound_node = \<lparr>snapshot = default_snapshot, telemetry_source = None\<rparr>"

definition one_node :: "64 word \<rightharpoonup> (globals \<times> jvm) node" where
  "one_node = [7 \<mapsto> unbound_node]"

definition loaded_lib :: rust_lib where
  "loaded_lib = \<lparr>rust_lib_handle = True, rust_create_node = True, rust_destroy_node = True,
     rust_get_capabilities = True, rust_update_network_type = True, rust_update_battery = True,
     rust_refresh_device_info = True, rust_recommended_model_dim = True,
     rust_recommended_tick_interval = True, rust_should_pause_training = True\<rparr>"

definition no_library :: dl where
  "no_library = \<lparr>dlopen_ok = False, dlsym_ok = (\<lambda>_. False)\<rparr>"

section \<open>The text buffer\<close>

lemma strncpy_indices: "(i, c) \<in> set (strncpy src n) \<Longrightarrow> i < n"
  by (auto simp: strncpy_def)

lemma buffer_after_snoc: "buffer_after (ws @ [(i, c)]) buf i = c"
  by (simp add: buffer_after_def)

lemma list_all_strncpy: "n \<le> m \<Longrightarrow> list_all (\<lambda>(i, c). i < m) (strncpy src n)"
  by (auto simp: list_all_iff dest: strncpy_indices)

lemma copy_unknown_within:
  assumes "0 < len"
  shows "list_all (\<lambda>(i, c). i < unat len) (copy_unknown len)"
    and "buffer_after (copy_unknown len) buf (unat (len - 1)) = NUL"
    and "unat (len - 1) < unat len"
proof -
  from assms have "len \<noteq> 0" by auto
  then have *: "unat (len - 1) = unat len - 1" by (rule unat_minus_one)
  from \<open>len \<noteq> 0\<close> have "0 < unat len" by (simp add: unat_gt_0)
  with * show "unat (len - 1) < unat len" by simp
  then show "list_all (\<lambda>(i, c). i < unat len) (copy_unknown len)"
    by (simp add: copy_unknown_def list_all_strncpy)
  show "buffer_after (copy_unknown len) buf (unat (len - 1)) = NUL"
    by (simp add: copy_unknown_def buffer_after_snoc)
qed

lemma network_section_cases:
  assumes "network_type_p s" and "0 < network_type_len s"
  shows "network_section n s = copy_unknown (network_type_len s)
    \<or> (\<exists>src k. k < network_type_len s
          \<and> network_section n s = strncpy src (unat k) @ [(unat k, NUL)])"
proof -
  have lt: "unat (network_type_len s - 1) < unat (network_type_len s)"
    by (rule copy_unknown_within(3) [OF assms(2)])
  then have k1: "network_type_len s - 1 < network_type_len s"
    by (simp add: word_less_nat_alt)
  show ?thesis
  proof (cases "detectNetworkType n")
    case Throws
    with assms show ?thesis by (simp add: network_section_def)
  next
    case (Returns r)
    show ?thesis
    proof (cases r)
      case None
      with Returns assms show ?thesis by (simp add: network_section_def)
    next
      case (Some net_cstr)
      show ?thesis
      proof (cases "GetStringUTFChars_ok n")
        case False
        with Some Returns assms show ?thesis by (simp add: network_section_def)
      next
        case True
        show ?thesis
        proof (cases "network_type_len s \<le> strlen net_cstr")
          case True
          with \<open>GetStringUTFChars_ok n\<close> Some Returns assms
          have "network_section n s = strncpy net_cstr (unat (network_type_len s - 1))
              @ [(unat (network_type_len s - 1), NUL)]"
            by (simp add: network_section_def Let_def)
          with k1 show ?thesis by blast
        next
          case False
          then have "strlen net_cstr < network_type_len s" by simp
          moreover from False \<open>GetStringUTFChars_ok n\<close> Some Returns assms
          have "network_section n s = strncpy net_cstr (unat (strlen net_cstr))
              @ [(unat (strlen net_cstr), NUL)]"
            by (simp add: network_section_def Let_def)
          ultimately show ?thesis by blast
        qed
      qed
    qed
  qed
qed

lemma network_section_within:
  "list_all (\<lambda>(i, c). i < unat (network_type_len s)) (network_section n s)"
proof (cases "network_type_p s \<and> 0 < network_type_len s")
  case False
  then have "network_section n s = []" by (auto simp: network_section_def)
  then show ?thesis by simp
next
  case True
  then have pos: "0 < network_type_len s" and p: "network_type_p s" by simp_all
  from network_section_cases [OF p pos, of n] show ?thesis
  proof (elim disjE exE conjE)
    assume "network_section n s = copy_unknown (network_type_len s)"
    then show ?thesis by (simp add: copy_unknown_within(1) [OF pos])
  next
    fix src k
    assume "k < network_type_len s"
      and "network_section n s = strncpy src (unat k) @ [(unat k, NUL)]"
    then show ?thesis by (simp add: list_all_strncpy word_less_nat_alt)
  qed
qed

lemma network_section_terminated:
  assumes "network_type_p s" and "0 < network_type_len s"
  shows "\<exists>i < unat (network_type_len s). buffer_after (network_section n s) buf i = NUL"
  using network_section_cases [OF assms, of n]
proof (elim disjE exE conjE)
  assume "network_section n s = copy_unknown (network_type_len s)"
  then show ?thesis
    using copy_unknown_within(2,3) [OF assms(2)] by metis
next
  fix src k
  assume "k < network_type_len s"
    and "network_section n s = strncpy src (unat k) @ [(unat k, NUL)]"
  then show ?thesis
    using buffer_after_snoc by (auto simp: word_less_nat_alt)
qed

lemma android_network_type_out:
  "out_network_type (snd (android_get_device_info G J s)) = []
   \<or> (fst (android_get_device_info G J s) = 0
      \<and> (\<exists>n. out_network_type (snd (android_get_device_info G J s)) = network_section n s))"
  by (auto simp: android_get_device_info_def no_outputs_def split: option.splits)

lemma android_network_type_success:
  "fst (android_get_device_info G J s) = 0 \<Longrightarrow>
   \<exists>n. out_network_type (snd (android_get_device_info G J s)) = network_section n s"
  by (auto simp: android_get_device_info_def no_outputs_def split: option.splits if_splits)

text \<open>
  C9, as amended. The callback of williw\_jni.cpp never stores at or past index
  \<open>network_type_len\<close>, whatever the capacity and whatever it returns; with capacity
  zero it stores nothing, so no terminator is written; when it returns 0 for a supplied
  buffer of capacity at least one, the buffer holds a terminator at an index below the
  capacity. The callback of ggb\_jni.cpp, when it returns 0 for a capacity of at least
  one, stores only below the capacity and leaves a terminator there.
\<close>

theorem network_type_terminated_within_capacity:
  "list_all (\<lambda>(i, c). i < unat (network_type_len s))
      (out_network_type (snd (android_get_device_info G J s)))
   \<and> (network_type_len s = 0 \<longrightarrow>
        out_network_type (snd (android_get_device_info G J s)) = [])
   \<and> (fst (android_get_device_info G J s) = 0 \<and> network_type_p s \<and> 0 < network_type_len s \<longrightarrow>
        (\<exists>i < unat (network_type_len s).
           buffer_after (out_network_type (snd (android_get_device_info G J s))) buf i = NUL))
   \<and> (ggb_android_get_device_info G' J s = Inr (0, out) \<and> 0 < network_type_len s \<longrightarrow>
        list_all (\<lambda>(i, c). i < unat (network_type_len s)) (out_network_type out)
        \<and> (\<exists>i < unat (network_type_len s). buffer_after (out_network_type out) buf i = NUL))"
proof (intro conjI impI)
  show within: "list_all (\<lambda>(i, c). i < unat (network_type_len s))
      (out_network_type (snd (android_get_device_info G J s)))"
    using android_network_type_out [of G J s] network_section_within
    by auto
  show "out_network_type (snd (android_get_device_info G J s)) = []"
    if "network_type_len s = 0"
    using within that by (cases "out_network_type (snd (android_get_device_info G J s))") auto
  show "\<exists>i < unat (network_type_len s).
      buffer_after (out_network_type (snd (android_get_device_info G J s))) buf i = NUL"
    if "fst (android_get_device_info G J s) = 0 \<and> network_type_p s \<and> 0 < network_type_len s"
    using android_network_type_success [of G J s] network_section_terminated [of s _ buf] that
    by auto
next
  assume a: "ggb_android_get_device_info G' J s = Inr (0, out) \<and> 0 < network_type_len s"
  then have "out_network_type out = copy_unknown (network_type_len s)"
    by (auto simp: ggb_android_get_device_info_def no_outputs_def
        split: option.splits if_splits)
  moreover from a have pos: "0 < network_type_len s" by simp
  note copy_unknown_within(1) [OF pos] copy_unknown_within(2) [OF pos, of buf]
    copy_unknown_within(3) [OF pos]
  ultimately show "list_all (\<lambda>(i, c). i < unat (network_type_len s)) (out_network_type out)"
    and "\<exists>i < unat (network_type_len s). buffer_after (out_network_type out) buf i = NUL"
    by auto
qed

theorem network_type_terminated_witness:
  "fst (android_get_device_info registered healthy_jvm (all_slots 16)) = 0
   \<and> network_type_p (all_slots 16) \<and> 0 < network_type_len (all_slots 16)
   \<and> (\<exists>i < unat (network_type_len (all_slots 16)).
         buffer_after (out_network_type (snd (android_get_device_info registered healthy_jvm
           (all_slots 16)))) (\<lambda>_. CHR ''x'') i = NUL)
   \<and> network_type_len (all_slots 0) = 0
   \<and> out_network_type (snd (android_get_device_info registered healthy_jvm (all_slots 0))) = []"
proof -
  have h: "fst (android_get_device_info registered healthy_jvm (all_slots 16)) = 0
      \<and> network_type_p (all_slots 16) \<and> 0 < network_type_len (all_slots 16)"
    by (simp add: android_get_device_info_def registered_def healthy_jvm_def wifi_node_def
        all_slots_def JNI_OK_def JNI_EDETACHED_def)
  have z: "network_type_len (all_slots 0) = 0"
    by (simp add: all_slots_def)
  from h z
    network_type_terminated_within_capacity
      [of "all_slots 16" registered healthy_jvm "\<lambda>_. CHR ''x''"]
    network_type_terminated_within_capacity [of "all_slots 0" registered healthy_jvm]
  show ?thesis by blast
qed

text \<open>
  C9 as stated fails at capacity zero: the callback of williw\_jni.cpp returns 0 and
  leaves the buffer as it was, with no terminator at any index below the capacity.
\<close>

theorem zero_capacity_no_terminator:
  "fst (android_get_device_info registered healthy_jvm (all_slots 0)) = 0
   \<and> network_type_p (all_slots 0)
   \<and> out_network_type (snd (android_get_device_info registered healthy_jvm (all_slots 0))) = []
   \<and> \<not> (\<exists>i < unat (network_type_len (all_slots 0)).
          buffer_after (out_network_type (snd (android_get_device_info registered healthy_jvm
            (all_slots 0)))) (\<lambda>_. CHR ''x'') i = NUL)"
  by (simp add: android_get_device_info_def network_section_def registered_def
      healthy_jvm_def wifi_node_def all_slots_def JNI_OK_def JNI_EDETACHED_def)

text \<open>
  The callback of ggb\_jni.cpp has no test of the capacity: with capacity zero,
  \<open>network_type_len - 1\<close> wraps around and the terminator is stored at the last index
  of the address space.
\<close>

lemma ggb_zero_capacity_stores_out_of_bounds:
  "\<exists>out. ggb_android_get_device_info ggb_registered healthy_jvm (all_slots 0) = Inr (0, out)
     \<and> (18446744073709551615, NUL) \<in> set (out_network_type out)
     \<and> \<not> 18446744073709551615 < unat (network_type_len (all_slots 0))"
  by (simp add: ggb_android_get_device_info_def copy_unknown_def ggb_registered_def
      healthy_jvm_def battery_context_def all_slots_def JNI_OK_def
      unsigned_minus_1_eq_mask mask_eq_exp_minus_1)

section \<open>Success and the output slots\<close>

text \<open>
  C8: when \<open>getSystemService\<close> answers \<open>null\<close>, the callback of williw\_jni.cpp
  returns the success status 0 although the caller supplied \<open>battery_level\<close> and
  \<open>is_charging\<close> and neither was assigned.
\<close>

theorem success_leaves_battery_slots_untouched:
  "fst (android_get_device_info registered no_battery_jvm (all_slots 16)) = 0
   \<and> battery_level_p (all_slots 16) \<and> is_charging_p (all_slots 16)
   \<and> out_battery_level (snd (android_get_device_info registered no_battery_jvm (all_slots 16))) = None
   \<and> out_is_charging (snd (android_get_device_info registered no_battery_jvm (all_slots 16))) = None"
  by (simp add: android_get_device_info_def battery_section_def registered_def
      no_battery_jvm_def no_battery_context_def wifi_node_def all_slots_def
      JNI_OK_def JNI_EDETACHED_def)

text \<open>
  What a 0 return does guarantee: the memory and core slots, when supplied, and the text
  buffer, when supplied with a capacity of at least one, were assigned. The callback of
  ggb\_jni.cpp assigns all five slots before it returns 0.
\<close>

lemma success_assigns_memory_cpu_network:
  assumes "fst (android_get_device_info G J s) = 0"
  shows "(memory_mb_p s \<longrightarrow> out_memory_mb (snd (android_get_device_info G J s)) \<noteq> None)
    \<and> (cpu_cores_p s \<longrightarrow> out_cpu_cores (snd (android_get_device_info G J s)) \<noteq> None)
    \<and> (network_type_p s \<and> 0 < network_type_len s \<longrightarrow>
         out_network_type (snd (android_get_device_info G J s)) \<noteq> [])"
proof -
  from assms obtain r where out:
    "snd (android_get_device_info G J s) =
       \<lparr>out_memory_mb = memory_section (node_object J r) s,
        out_cpu_cores = cpu_section (node_object J r) s,
        out_network_type = network_section (node_object J r) s,
        out_battery_level = fst (battery_section G J s),
        out_is_charging = snd (battery_section G J s)\<rparr>"
    by (auto simp: android_get_device_info_def split: option.splits if_splits)
  have "memory_mb_p s \<longrightarrow> memory_section (node_object J r) s \<noteq> None"
    by (simp add: memory_section_def split: jcall.splits)
  moreover have "cpu_cores_p s \<longrightarrow> cpu_section (node_object J r) s \<noteq> None"
    by (simp add: cpu_section_def split: jcall.splits)
  moreover have "network_type_p s \<and> 0 < network_type_len s \<longrightarrow>
      network_section (node_object J r) s \<noteq> []"
    using network_section_cases [of s "node_object J r"]
    by (auto simp: copy_unknown_def)
  ultimately show ?thesis using out by simp
qed

lemma ggb_success_assigns_every_slot:
  assumes "ggb_android_get_device_info G J s = Inr (0, out)"
  shows "out_memory_mb out = Some 2048 \<and> out_cpu_cores out = Some 4
    \<and> out_network_type out = copy_unknown (network_type_len s)
    \<and> out_battery_level out = Some (Fin (- 1)) \<and> out_is_charging out = Some 0"
  using assms
  by (auto simp: ggb_android_get_device_info_def no_outputs_def split: option.splits if_splits)

section \<open>Registration of the callback\<close>

text \<open>
  C10, as amended. \<open>nativeSetDeviceCallback\<close> keeps one process-wide pair of
  references, not a table keyed by handle: whatever the handle and whatever the globals
  held, the call replaces \<open>g_ggb_node\<close> and \<open>g_context\<close> and gives the core the same
  callback function; after a second registration the callback, invoked for any node,
  reads the object and context of the second.
\<close>

theorem registration_replaces_the_process_wide_slot:
  "fst (nativeSetDeviceCallback thiz handle context G)
     = \<lparr>g_ggb_node = thiz, g_context = context, g_jvm = True\<rparr>
   \<and> snd (nativeSetDeviceCallback thiz handle context G) = (handle, android_get_device_info)
   \<and> android_get_device_info
        (fst (nativeSetDeviceCallback thiz' handle' context'
           (fst (nativeSetDeviceCallback thiz handle context G)))) J s
     = android_get_device_info \<lparr>g_ggb_node = thiz', g_context = context', g_jvm = True\<rparr> J s"
  by (cases G) (simp add: nativeSetDeviceCallback_def NewGlobalRef_def)

text \<open>
  C10 as stated fails: node 1 registers with a Java object that reports 1024 MB, then
  node 2, a different handle, registers with one that reports 4096 MB; the callback
  registered for node 1 now reports 4096 MB.
\<close>

theorem second_registration_redirects_first_node:
  "(1 :: 64 word) \<noteq> 2
   \<and> snd (nativeSetDeviceCallback (Some 10) 1 (Some 2) unregistered)
       = (1, android_get_device_info)
   \<and> out_memory_mb (snd (android_get_device_info
         (fst (nativeSetDeviceCallback (Some 10) 1 (Some 2) unregistered))
         healthy_jvm (all_slots 16))) = Some 1024
   \<and> out_memory_mb (snd (android_get_device_info
         (fst (nativeSetDeviceCallback (Some 20) 2 (Some 2)
            (fst (nativeSetDeviceCallback (Some 10) 1 (Some 2) unregistered))))
         healthy_jvm (all_slots 16))) = Some 4096"
  by (simp add: nativeSetDeviceCallback_def NewGlobalRef_def android_get_device_info_def
      memory_section_def unregistered_def healthy_jvm_def wifi_node_def small_node_def
      all_slots_def JNI_OK_def JNI_EDETACHED_def)

section \<open>Capabilities at the boundary\<close>

text \<open>
  C4: with a non-null node pointer and the library loaded, \<open>getCapabilities\<close> of the
  tauri bridge hands the core's result to Java untested, so a null result of the core
  comes back as a null string with no descriptor at all; on the same result
  \<open>nativeGetCapabilities\<close> of williw\_jni.cpp returns the empty descriptor \<open>{}\<close>.
\<close>

theorem tauri_wrapper_forwards_null:
  "fst (getCapabilities no_library (\<lambda>_. None) 7 loaded_lib) = None
   \<and> nativeGetCapabilities (\<lambda>_. None) 7 = Some ''{}''"
  by (simp add: getCapabilities_def loadRustLibrary_def loaded_lib_def
      nativeGetCapabilities_def NewStringUTF_def)

text \<open>
  What the two wrappers do guarantee, for every behaviour of the core:
  \<open>nativeGetCapabilities\<close> returns the core's descriptor, or \<open>{}\<close> when the core
  returns null; \<open>getCapabilities\<close> returns a descriptor with an \<open>error\<close> key for a
  null node pointer and when the library or the function is missing, and the core's result
  as it is otherwise.
\<close>

lemma wrappers_at_the_boundary:
  "nativeGetCapabilities core handle \<noteq> None
   \<and> (core handle = None \<longrightarrow> nativeGetCapabilities core handle = Some ''{}'')
   \<and> (core handle = Some json \<longrightarrow> nativeGetCapabilities core handle = Some json)
   \<and> (ptr = 0 \<longrightarrow> fst (getCapabilities D rust ptr L) = Some null_pointer_descriptor)
   \<and> (ptr \<noteq> 0 \<and> \<not> (fst (loadRustLibrary D L) \<and> rust_get_capabilities (snd (loadRustLibrary D L)))
        \<longrightarrow> fst (getCapabilities D rust ptr L) = Some not_loaded_descriptor)
   \<and> (ptr \<noteq> 0 \<and> fst (loadRustLibrary D L) \<and> rust_get_capabilities (snd (loadRustLibrary D L))
        \<longrightarrow> fst (getCapabilities D rust ptr L) = rust ptr)
   \<and> take (length error_key) null_pointer_descriptor = error_key
   \<and> take (length error_key) not_loaded_descriptor = error_key"
proof -
  have "take (length error_key) null_pointer_descriptor = error_key"
    and "take (length error_key) not_loaded_descriptor = error_key"
    by (simp_all add: error_key_def null_pointer_descriptor_def not_loaded_descriptor_def)
  then show ?thesis
    by (auto simp: nativeGetCapabilities_def getCapabilities_def NewStringUTF_def
        split: option.splits)
qed

section \<open>The pause policy\<close>

text \<open>
  C1. \<open>should_pause_training\<close> is true exactly when the battery level is known (not
  the sentinel \<open>-1.0\<close>), below the threshold and the device is not charging, or the
  network is offline, or memory or cores are below the minimum. Offline pauses whatever the
  other fields are; an unknown battery level on an otherwise healthy snapshot does not
  pause.
\<close>

theorem should_pause_training_iff:
  "(should_pause_training P s \<longleftrightarrow>
      (battery_level s \<noteq> Fin (- 1) \<and> below (battery_level s) (battery_low P)
         \<and> \<not> is_charging s)
      \<or> network_type s = Offline
      \<or> memory_mb s < min_memory_mb P \<or> cpu_cores s < min_cpu_cores P)
   \<and> (network_type s = Offline \<longrightarrow> should_pause_training P s)
   \<and> (battery_level s = Fin (- 1) \<and> network_type s \<noteq> Offline
        \<and> min_memory_mb P \<le> memory_mb s \<and> min_cpu_cores P \<le> cpu_cores s
      \<longrightarrow> \<not> should_pause_training P s)"
  by (auto simp: should_pause_training_def)

theorem should_pause_training_witness:
  "network_type (default_snapshot\<lparr>network_type := Offline\<rparr>) = Offline
   \<and> should_pause_training example_policy (default_snapshot\<lparr>network_type := Offline\<rparr>)
   \<and> battery_level default_snapshot = Fin (- 1)
   \<and> network_type default_snapshot \<noteq> Offline
   \<and> min_memory_mb example_policy \<le> memory_mb default_snapshot
   \<and> min_cpu_cores example_policy \<le> cpu_cores default_snapshot
   \<and> \<not> should_pause_training example_policy default_snapshot
   \<and> should_pause_training example_policy (default_snapshot\<lparr>battery_level := Fin (1 / 10)\<rparr>)"
  using should_pause_training_iff [of example_policy "default_snapshot\<lparr>network_type := Offline\<rparr>"]
    should_pause_training_iff [of example_policy default_snapshot]
    should_pause_training_iff [of example_policy "default_snapshot\<lparr>battery_level := Fin (1 / 10)\<rparr>"]
  by (simp add: default_snapshot_def example_policy_def below_def)

section \<open>Battery updates\<close>

text \<open>
  C2. \<open>nativeUpdateBattery\<close> passes the level to the core as it is, and for a live
  handle the core stores the clamped level: the sentinel \<open>-1.0\<close> unchanged, a bound
  of \<open>[0, 1]\<close> for not-a-number, \<open>0\<close> for any other negative level, \<open>1\<close> for
  a level above \<open>1\<close>, and a level within \<open>[0, 1]\<close> as given.
\<close>

theorem update_battery_clamps:
  assumes "nodes handle = Some n"
  shows "nativeUpdateBattery (williw_node_update_battery nh nodes) handle level charging
        = (Ok, nodes(handle \<mapsto> n\<lparr>snapshot := (snapshot n)\<lparr>
             battery_level := clamp_level nh level, is_charging := (charging \<noteq> 0)\<rparr>\<rparr>))
      \<and> clamp_level nh (Fin (- 1)) = Fin (- 1)
      \<and> (clamp_level nh NaN = Fin 0 \<or> clamp_level nh NaN = Fin 1)
      \<and> clamp_level nh NegInf = Fin 0
      \<and> clamp_level nh PosInf = Fin 1
      \<and> (x \<noteq> - 1 \<and> x < 0 \<longrightarrow> clamp_level nh (Fin x) = Fin 0)
      \<and> (1 < x \<longrightarrow> clamp_level nh (Fin x) = Fin 1)
      \<and> (0 \<le> x \<and> x \<le> 1 \<longrightarrow> clamp_level nh (Fin x) = Fin x)"
proof -
  have "nativeUpdateBattery (williw_node_update_battery nh nodes) handle level charging
      = (Ok, nodes(handle \<mapsto> n\<lparr>snapshot := (snapshot n)\<lparr>
           battery_level := clamp_level nh level, is_charging := (charging \<noteq> 0)\<rparr>\<rparr>))"
    using assms by (simp add: nativeUpdateBattery_def williw_node_update_battery_def)
  moreover have "clamp_level nh (Fin (- 1)) = Fin (- 1)"
    and "clamp_level nh NaN = Fin 0 \<or> clamp_level nh NaN = Fin 1"
    and "clamp_level nh NegInf = Fin 0" and "clamp_level nh PosInf = Fin 1"
    and "x \<noteq> - 1 \<and> x < 0 \<longrightarrow> clamp_level nh (Fin x) = Fin 0"
    and "1 < x \<longrightarrow> clamp_level nh (Fin x) = Fin 1"
    and "0 \<le> x \<and> x \<le> 1 \<longrightarrow> clamp_level nh (Fin x) = Fin x"
    by (simp_all add: clamp_level_def)
  ultimately show ?thesis by blast
qed

theorem update_battery_clamps_witness:
  "one_node 7 = Some unbound_node
   \<and> stored_battery (snd (nativeUpdateBattery (williw_node_update_battery False one_node)
         7 (Fin (- 1)) 0)) 7 = Some (Fin (- 1), False)
   \<and> stored_battery (snd (nativeUpdateBattery (williw_node_update_battery False one_node)
         7 (Fin (15 / 10)) 1)) 7 = Some (Fin 1, True)
   \<and> stored_battery (snd (nativeUpdateBattery (williw_node_update_battery False one_node)
         7 (Fin (- (3 / 10))) 0)) 7 = Some (Fin 0, False)
   \<and> stored_battery (snd (nativeUpdateBattery (williw_node_update_battery False one_node)
         7 (Fin (4 / 10)) 0)) 7 = Some (Fin (4 / 10), False)"
proof -
  have h: "one_node 7 = Some unbound_node"
    by (simp add: one_node_def)
  have e1: "stored_battery (snd (nativeUpdateBattery
      (williw_node_update_battery False one_node) 7 (Fin (- 1)) 0)) 7 = Some (Fin (- 1), False)"
    using update_battery_clamps [of one_node 7 unbound_node False "Fin (- 1)" 0] h
    by (simp add: stored_battery_def)
  have e2: "stored_battery (snd (nativeUpdateBattery
      (williw_node_update_battery False one_node) 7 (Fin (15 / 10)) 1)) 7 = Some (Fin 1, True)"
    using update_battery_clamps [of one_node 7 unbound_node False "Fin (15 / 10)" 1 "15 / 10"] h
    by (simp add: stored_battery_def)
  have e3: "stored_battery (snd (nativeUpdateBattery
      (williw_node_update_battery False one_node) 7 (Fin (- (3 / 10))) 0)) 7 = Some (Fin 0, False)"
    using update_battery_clamps
      [of one_node 7 unbound_node False "Fin (- (3 / 10))" 0 "- (3 / 10)"] h
    by (simp add: stored_battery_def)
  have e4: "stored_battery (snd (nativeUpdateBattery
      (williw_node_update_battery False one_node) 7 (Fin (4 / 10)) 0)) 7
      = Some (Fin (4 / 10), False)"
    using update_battery_clamps [of one_node 7 unbound_node False "Fin (4 / 10)" 0 "4 / 10"] h
    by (simp add: stored_battery_def)
  from h e1 e2 e3 e4 show ?thesis by blast
qed

section \<open>Failure returns\<close>

text \<open>
  Every nonzero return of the callback of williw\_jni.cpp comes before the first store
  through an output pointer: a caller that sees a failure finds its slots as it left them.
\<close>

lemma android_failure_stores_nothing:
  "fst (android_get_device_info G J s) \<noteq> 0 \<Longrightarrow> snd (android_get_device_info G J s) = no_outputs"
  by (auto simp: android_get_device_info_def split: option.splits if_splits)

end
